theory Spec2Isabelle
  imports Complex_Main "HOL-Library.AList"
begin

section \<open>Python values\<close>

text \<open>
  A Python \<open>str\<close> is a sequence of Unicode code points; \<open>u\<close> turns an ASCII
  literal into one. Dictionary keys are the fixed ASCII keys the program looks up, so they
  stay Isabelle strings; a dictionary is an association list in insertion order, read with
  \<open>map_of\<close> and written with \<open>AList.update\<close> (replace in place, else append).
\<close>

type_synonym ustr = "nat list"

definition u :: "string \<Rightarrow> ustr" where
  "u s = map of_char s"

datatype error = TypeError | AttributeError | ValueError

record datetime =
  year :: int
  month :: int
  day :: int
  hour :: int
  minute :: int
  second :: int
  microsecond :: int

text \<open>
  Attribute values of an identity record: \<open>None\<close>, integers, floats, strings, naive
  \<open>datetime\<close> values, and the two containers the evaluator itself stores (a set of
  name tokens, a list of reason strings).
\<close>

datatype pyval =
    PNone
  | PInt int
  | PFloat rat
  | PStr ustr
  | PDateTime datetime
  | PStrSet "ustr set"
  | PStrList "ustr list"

type_synonym pydict = "(string \<times> pyval) list"

fun truthy :: "pyval \<Rightarrow> bool" where
  "truthy PNone = False"
| "truthy (PInt i) = (i \<noteq> 0)"
| "truthy (PFloat f) = (f \<noteq> 0)"
| "truthy (PStr s) = (s \<noteq> [])"
| "truthy (PDateTime d) = True"
| "truthy (PStrSet S) = (S \<noteq> {})"
| "truthy (PStrList xs) = (xs \<noteq> [])"

text \<open>Python \<open>==\<close>: numbers compare by value across int and float, everything else
  structurally.\<close>

fun py_eq :: "pyval \<Rightarrow> pyval \<Rightarrow> bool" where
  "py_eq (PInt i) (PFloat f) = (of_int i = f)"
| "py_eq (PFloat f) (PInt i) = (f = of_int i)"
| "py_eq a b = (a = b)"

definition has_key :: "pydict \<Rightarrow> string \<Rightarrow> bool" where
  "has_key d k = (k \<in> set (map fst d))"

section \<open>Floating point\<close>

text \<open>
  A Python float is an IEEE-754 double. Its value is a rational; every arithmetic
  operation is the exact operation followed by \<open>fl\<close>, rounding to the nearest double
  (53-bit significand, ties to even). Subnormals and overflow are not modelled: the
  exponent is unbounded.
\<close>

text \<open>The number of binary digits of a positive integer.\<close>

function nbits :: "int \<Rightarrow> int" where
  "nbits n = (if n \<le> 0 then 0 else 1 + nbits (n div 2))"
  by pat_completeness auto
termination
  by (relation "measure nat") auto

definition pow2 :: "int \<Rightarrow> rat" where
  "pow2 k = (if 0 \<le> k then 2 ^ nat k else 1 / 2 ^ nat (- k))"

definition ilog2 :: "rat \<Rightarrow> int" where
  "ilog2 x = (case quotient_of x of (n, d) \<Rightarrow>
     (let e = nbits n - nbits d
      in if pow2 e \<le> x then e else e - 1))"

definition round_half_even :: "rat \<Rightarrow> int" where
  "round_half_even m = (let f = \<lfloor>m\<rfloor>; r = m - of_int f
     in if r < 1 / 2 then f else if 1 / 2 < r then f + 1
        else if even f then f else f + 1)"

definition fl :: "rat \<Rightarrow> rat" where
  "fl x = (if x = 0 then 0 else
     (let a = \<bar>x\<bar>; w = pow2 (ilog2 a - 52)
      in sgn x * of_int (round_half_even (a / w)) * w))"

definition fadd :: "rat \<Rightarrow> rat \<Rightarrow> rat" where
  "fadd a b = fl (a + b)"

definition fmul :: "rat \<Rightarrow> rat \<Rightarrow> rat" where
  "fmul a b = fl (a * b)"

definition fdiv :: "rat \<Rightarrow> rat \<Rightarrow> rat" where
  "fdiv a b = fl (a / b)"

section \<open>The environment: library functions and the clock\<close>

text \<open>
  What the evaluator takes from outside the repository is a parameter:
  the character classes of \<open>re\<close> (\<open>\w\<close>, \<open>\s\<close>, the non-ASCII decimal digits of
  \<open>\d\<close> with their values), \<open>str.lower\<close>, \<open>difflib.SequenceMatcher(None, a, b).ratio()\<close>,
  \<open>jellyfish.jaro_winkler_similarity\<close> and \<open>datetime.now()\<close>.
  \<open>str.split()\<close> and \<open>str.strip()\<close> use the same whitespace class as \<open>\s\<close>.
\<close>

record env =
  is_word :: "nat \<Rightarrow> bool"
  is_space :: "nat \<Rightarrow> bool"
  decimal :: "nat \<Rightarrow> nat option"
  lower :: "ustr \<Rightarrow> ustr"
  seq_ratio :: "ustr \<Rightarrow> ustr \<Rightarrow> rat"
  jaro_winkler :: "ustr \<Rightarrow> ustr \<Rightarrow> rat"
  now :: datetime

text \<open>\<open>s.split()\<close>: the maximal runs of non-whitespace, in order.\<close>

fun split_ws :: "(nat \<Rightarrow> bool) \<Rightarrow> ustr \<Rightarrow> ustr \<Rightarrow> ustr list" where
  "split_ws sp cur [] = (if cur = [] then [] else [rev cur])"
| "split_ws sp cur (c # cs) =
     (if sp c then (if cur = [] then split_ws sp [] cs else rev cur # split_ws sp [] cs)
      else split_ws sp (c # cur) cs)"

definition split :: "env \<Rightarrow> ustr \<Rightarrow> ustr list" where
  "split e s = split_ws (is_space e) [] s"

definition strip :: "env \<Rightarrow> ustr \<Rightarrow> ustr" where
  "strip e s = rev (dropWhile (is_space e) (rev (dropWhile (is_space e) s)))"

section \<open>Category table and classifier\<close>

record category_info =
  min_score :: rat
  label :: string

definition MATCH_CATEGORIES :: "(string \<times> category_info) list" where
  "MATCH_CATEGORIES =
     [(''HIGH_RELEVANCE'', \<lparr>min_score = fl (8 / 10), label = ''Highly Relevant Match''\<rparr>),
      (''MEDIUM_RELEVANCE'', \<lparr>min_score = fl (6 / 10), label = ''Potentially Relevant Match''\<rparr>),
      (''LOW_RELEVANCE'', \<lparr>min_score = fl (4 / 10), label = ''Low Relevance Match''\<rparr>),
      (''NOT_RELEVANT'', \<lparr>min_score = 0, label = ''Not Relevant''\<rparr>)]"

record match_category =
  category :: string
  cat_label :: string
  score :: rat

text \<open>\<open>sorted(items, key=..., reverse=True)\<close>: stable, descending.\<close>

definition sorted_reverse :: "('a \<Rightarrow> rat) \<Rightarrow> 'a list \<Rightarrow> 'a list" where
  "sorted_reverse f xs = rev (sort_key f (rev xs))"

fun first_category :: "rat \<Rightarrow> (string \<times> category_info) list \<Rightarrow> match_category option" where
  "first_category s [] = None"
| "first_category s ((c, info) # rest) =
     (if s \<ge> min_score info
      then Some \<lparr>category = c, cat_label = label info, score = s\<rparr>
      else first_category s rest)"

definition get_match_category :: "rat \<Rightarrow> match_category" where
  "get_match_category s =
     (case first_category s (sorted_reverse (\<lambda>x. min_score (snd x)) MATCH_CATEGORIES) of
        Some r \<Rightarrow> r
      | None \<Rightarrow> (case map_of MATCH_CATEGORIES ''NOT_RELEVANT'' of
          Some info \<Rightarrow> \<lparr>category = ''NOT_RELEVANT'', cat_label = label info, score = s\<rparr>
        | None \<Rightarrow> \<lparr>category = ''NOT_RELEVANT'', cat_label = [], score = s\<rparr>))"

text \<open>The threshold of a category name, its rank in the ordering of tiers.\<close>

definition rank :: "string \<Rightarrow> rat" where
  "rank c = (case map_of MATCH_CATEGORIES c of Some info \<Rightarrow> min_score info | None \<Rightarrow> 0)"

section \<open>Comparators\<close>

definition compare_dates :: "pyval \<Rightarrow> pyval \<Rightarrow> error + rat" where
  "compare_dates date1 date2 =
     (if date1 = PNone \<or> date2 = PNone then Inr 0
      else if py_eq date1 date2 then Inr 1
      else (case (date1, date2) of
              (PDateTime a, PDateTime b) \<Rightarrow> if year a = year b then Inr (fl (5 / 10)) else Inr 0
            | _ \<Rightarrow> Inl AttributeError))"

section \<open>Normalizer\<close>

definition normalize_name :: "env \<Rightarrow> pyval \<Rightarrow> error + ustr" where
  "normalize_name e name =
     (if \<not> truthy name then Inr []
      else (case name of
              PStr s \<Rightarrow> Inr (lower e (filter (\<lambda>c. is_word e c \<or> is_space e c) s))
            | _ \<Rightarrow> Inl TypeError))"

definition name_fields :: "string list" where
  "name_fields = [''first_name'', ''middle_name'', ''last_name'', ''full_name'']"

text \<open>First loop of \<open>_normalize_tenant_data\<close>: every present, truthy name field is
  replaced by its normalized form.\<close>

fun normalize_names :: "env \<Rightarrow> string list \<Rightarrow> pydict \<Rightarrow> error + pydict" where
  "normalize_names e [] d = Inr d"
| "normalize_names e (f # fs) d =
     (case map_of d f of
        None \<Rightarrow> normalize_names e fs d
      | Some v \<Rightarrow>
          if truthy v
          then (case normalize_name e v of
                  Inl err \<Rightarrow> Inl err
                | Inr s \<Rightarrow> normalize_names e fs (AList.update f (PStr s) d))
          else normalize_names e fs d)"

text \<open>Second loop: the tokens of every present, truthy name field; \<open>.split()\<close> exists
  on strings only.\<close>

fun collect_parts :: "env \<Rightarrow> string list \<Rightarrow> pydict \<Rightarrow> ustr set \<Rightarrow> error + ustr set" where
  "collect_parts e [] d acc = Inr acc"
| "collect_parts e (f # fs) d acc =
     (case map_of d f of
        None \<Rightarrow> collect_parts e fs d acc
      | Some v \<Rightarrow>
          if truthy v
          then (case v of
                  PStr s \<Rightarrow> collect_parts e fs d (acc \<union> set (split e s))
                | _ \<Rightarrow> Inl AttributeError)
          else collect_parts e fs d acc)"

subsection \<open>\<open>datetime.strptime\<close>\<close>

text \<open>
  \<open>strptime\<close> turns the format into a regular expression, one group per directive:
  \<open>%Y\<close> is \<open>\d\d\d\d\<close>, \<open>%m\<close> is \<open>1[0-2]|0[1-9]|[1-9]\<close>, \<open>%d\<close> is
  \<open>3[0-1]|[1-2]\d|0[1-9]|[1-9]| [1-9]\<close>; the alternatives are tried in order, with
  backtracking. The match must consume the whole string, and the date must exist.
\<close>

datatype char_class = Range nat nat | Digit

datatype fmt_item = Lit nat | Directive "char_class list list"

definition is_decimal :: "env \<Rightarrow> nat \<Rightarrow> bool" where
  "is_decimal e c = ((48 \<le> c \<and> c \<le> 57) \<or> decimal e c \<noteq> None)"

fun in_class :: "env \<Rightarrow> char_class \<Rightarrow> nat \<Rightarrow> bool" where
  "in_class e (Range lo hi) c = (lo \<le> c \<and> c \<le> hi)"
| "in_class e Digit c = is_decimal e c"

fun match_seq :: "env \<Rightarrow> char_class list \<Rightarrow> ustr \<Rightarrow> (ustr \<times> ustr) option" where
  "match_seq e [] s = Some ([], s)"
| "match_seq e (k # ks) [] = None"
| "match_seq e (k # ks) (c # cs) =
     (if in_class e k c
      then (case match_seq e ks cs of None \<Rightarrow> None | Some (g, rest) \<Rightarrow> Some (c # g, rest))
      else None)"

fun first_some :: "('a \<Rightarrow> 'b option) \<Rightarrow> 'a list \<Rightarrow> 'b option" where
  "first_some f [] = None"
| "first_some f (x # xs) = (case f x of Some y \<Rightarrow> Some y | None \<Rightarrow> first_some f xs)"

fun match_items :: "env \<Rightarrow> fmt_item list \<Rightarrow> ustr \<Rightarrow> (ustr list \<times> ustr) option" where
  "match_items e [] s = Some ([], s)"
| "match_items e (Lit c # items) s =
     (case s of [] \<Rightarrow> None
      | x # xs \<Rightarrow> if x = c then match_items e items xs else None)"
| "match_items e (Directive alts # items) s =
     first_some (\<lambda>alt.
        case match_seq e alt s of
          None \<Rightarrow> None
        | Some (g, rest) \<Rightarrow>
            (case match_items e items rest of
               None \<Rightarrow> None
             | Some (gs, r) \<Rightarrow> Some (g # gs, r))) alts"

definition dir_Y :: fmt_item where
  "dir_Y = Directive [[Digit, Digit, Digit, Digit]]"

definition dir_m :: fmt_item where
  "dir_m = Directive [[Range 49 49, Range 48 50], [Range 48 48, Range 49 57], [Range 49 57]]"

definition dir_d :: fmt_item where
  "dir_d = Directive [[Range 51 51, Range 48 49], [Range 49 50, Digit],
                      [Range 48 48, Range 49 57], [Range 49 57], [Range 32 32, Range 49 57]]"

text \<open>\<open>int(group)\<close>: surrounding blanks are ignored, digits are read in base ten.\<close>

definition digit_value :: "env \<Rightarrow> nat \<Rightarrow> nat" where
  "digit_value e c = (if 48 \<le> c \<and> c \<le> 57 then c - 48
                      else (case decimal e c of Some v \<Rightarrow> v | None \<Rightarrow> 0))"

definition to_int :: "env \<Rightarrow> ustr \<Rightarrow> int" where
  "to_int e g = int (foldl (\<lambda>acc c. 10 * acc + digit_value e c) 0 (filter (\<lambda>c. c \<noteq> 32) g))"

definition is_leap :: "int \<Rightarrow> bool" where
  "is_leap y = (y mod 4 = 0 \<and> (y mod 100 \<noteq> 0 \<or> y mod 400 = 0))"

definition days_in_month :: "int \<Rightarrow> int \<Rightarrow> int" where
  "days_in_month y m =
     (if m = 2 then (if is_leap y then 29 else 28)
      else if m = 4 \<or> m = 6 \<or> m = 9 \<or> m = 11 then 30 else 31)"

text \<open>The constructor \<open>datetime(y, m, d)\<close>: midnight, \<open>ValueError\<close> when the date
  does not exist.\<close>

definition mk_datetime :: "int \<Rightarrow> int \<Rightarrow> int \<Rightarrow> datetime option" where
  "mk_datetime y m d =
     (if 1 \<le> y \<and> y \<le> 9999 \<and> 1 \<le> m \<and> m \<le> 12 \<and> 1 \<le> d \<and> d \<le> days_in_month y m
      then Some \<lparr>year = y, month = m, day = d, hour = 0, minute = 0, second = 0, microsecond = 0\<rparr>
      else None)"

datatype field = FY | FM | FD

text \<open>A format is its regular expression and the order of its groups; \<open>None\<close> is
  \<open>ValueError\<close>.\<close>

definition strptime :: "env \<Rightarrow> ustr \<Rightarrow> (fmt_item list \<times> field list) \<Rightarrow> datetime option" where
  "strptime e s fmt =
     (case match_items e (fst fmt) s of
        None \<Rightarrow> None
      | Some (gs, rest) \<Rightarrow>
          if rest \<noteq> [] then None
          else (let vals = zip (snd fmt) (map (to_int e) gs)
                in case (map_of vals FY, map_of vals FM, map_of vals FD) of
                     (Some y, Some m, Some d) \<Rightarrow> mk_datetime y m d
                   | _ \<Rightarrow> None))"

definition dob_formats :: "(fmt_item list \<times> field list) list" where
  "dob_formats =
     [([dir_Y, Lit 45, dir_m, Lit 45, dir_d], [FY, FM, FD]),
      ([dir_d, Lit 47, dir_m, Lit 47, dir_Y], [FD, FM, FY]),
      ([dir_m, Lit 47, dir_d, Lit 47, dir_Y], [FM, FD, FY]),
      ([dir_d, Lit 45, dir_m, Lit 45, dir_Y], [FD, FM, FY])]"

text \<open>The \<open>for fmt ... break ... else\<close> loop: the first format that parses, else
  \<open>None\<close>.\<close>

definition parse_dob :: "env \<Rightarrow> ustr \<Rightarrow> pyval" where
  "parse_dob e s = (case first_some (strptime e s) dob_formats of
                      Some dt \<Rightarrow> PDateTime dt
                    | None \<Rightarrow> PNone)"

definition normalize_dob :: "env \<Rightarrow> pydict \<Rightarrow> pydict" where
  "normalize_dob e d =
     (case map_of d ''dob'' of
        Some (PStr s) \<Rightarrow> if s \<noteq> [] then AList.update ''dob'' (parse_dob e s) d else d
      | _ \<Rightarrow> d)"

definition add_age :: "env \<Rightarrow> pydict \<Rightarrow> pydict" where
  "add_age e d =
     (case map_of d ''dob'' of
        Some (PDateTime b) \<Rightarrow>
          (let today = now e
           in AList.update ''age''
                (PInt (year today - year b
                       - (if month today < month b \<or> (month today = month b \<and> day today < day b)
                          then 1 else 0))) d)
      | _ \<Rightarrow> d)"

definition normalize_tenant_data :: "env \<Rightarrow> pydict \<Rightarrow> error + pydict" where
  "normalize_tenant_data e data =
     (case normalize_names e name_fields data of
        Inl err \<Rightarrow> Inl err
      | Inr d1 \<Rightarrow>
          (case collect_parts e name_fields (AList.update ''name_parts'' (PStrSet {}) d1) {} of
             Inl err \<Rightarrow> Inl err
           | Inr parts \<Rightarrow>
               Inr (add_age e (normalize_dob e (AList.update ''name_parts'' (PStrSet parts) d1)))))"

section \<open>String comparators\<close>

definition bind_err :: "error + 'a \<Rightarrow> ('a \<Rightarrow> error + 'b) \<Rightarrow> error + 'b" where
  "bind_err r f = (case r of Inl err \<Rightarrow> Inl err | Inr v \<Rightarrow> f v)"

definition calculate_name_similarity :: "env \<Rightarrow> pyval \<Rightarrow> pyval \<Rightarrow> error + rat" where
  "calculate_name_similarity e tenant_name match_name =
     (if \<not> truthy tenant_name \<or> \<not> truthy match_name then Inr 0
      else bind_err (normalize_name e tenant_name) (\<lambda>t.
           bind_err (normalize_name e match_name) (\<lambda>m.
             (let sequence_score = seq_ratio e t m;
                  jaro_winkler_score = jaro_winkler e t m;
                  tenant_parts = set (split e t);
                  match_parts = set (split e m);
                  parts_overlap =
                    (if tenant_parts \<noteq> {}
                     then fdiv (of_nat (card (tenant_parts \<inter> match_parts)))
                               (of_nat (card tenant_parts))
                     else 0)
              in Inr (max sequence_score (max jaro_winkler_score parts_overlap))))))"

definition compare_locations :: "env \<Rightarrow> pyval \<Rightarrow> pyval \<Rightarrow> error + rat" where
  "compare_locations e tenant_location match_location =
     (if \<not> truthy tenant_location \<or> \<not> truthy match_location then Inr 0
      else bind_err (normalize_name e tenant_location) (\<lambda>t.
           bind_err (normalize_name e match_location) (\<lambda>m.
             Inr (seq_ratio e t m))))"

definition compare_nationalities :: "env \<Rightarrow> pyval \<Rightarrow> pyval \<Rightarrow> error + rat" where
  "compare_nationalities e tenant_nationality match_nationality =
     (if \<not> truthy tenant_nationality \<or> \<not> truthy match_nationality then Inr 0
      else bind_err (normalize_name e tenant_nationality) (\<lambda>t.
           bind_err (normalize_name e match_nationality) (\<lambda>m.
             Inr (if t = m then 1 else 0))))"

definition gender_map :: "(ustr \<times> ustr) list" where
  "gender_map =
     [(u ''m'', u ''male''), (u ''f'', u ''female''), (u ''male'', u ''male''),
      (u ''female'', u ''female''), (u ''man'', u ''male''), (u ''woman'', u ''female'')]"

text \<open>\<open>g.lower().strip()\<close>, an attribute of strings only.\<close>

definition lower_strip :: "env \<Rightarrow> pyval \<Rightarrow> error + ustr" where
  "lower_strip e v = (case v of PStr s \<Rightarrow> Inr (strip e (lower e s)) | _ \<Rightarrow> Inl AttributeError)"

definition map_gender :: "ustr \<Rightarrow> ustr" where
  "map_gender g = (case map_of gender_map g of Some x \<Rightarrow> x | None \<Rightarrow> g)"

definition compare_gender :: "env \<Rightarrow> pyval \<Rightarrow> pyval \<Rightarrow> error + rat" where
  "compare_gender e tenant_gender match_gender =
     (if \<not> truthy tenant_gender \<or> \<not> truthy match_gender then Inr 0
      else bind_err (lower_strip e tenant_gender) (\<lambda>t.
           bind_err (lower_strip e match_gender) (\<lambda>m.
             Inr (if map_gender t = map_gender m then 1 else 0))))"

section \<open>Aggregator\<close>

record evaluator =
  tenant_data :: pydict
  threshold :: rat

text \<open>\<open>__init__\<close>, with the default threshold \<open>0.7\<close>.\<close>

definition init :: "env \<Rightarrow> pydict \<Rightarrow> error + evaluator" where
  "init e data = bind_err (normalize_tenant_data e data)
                   (\<lambda>d. Inr \<lparr>tenant_data = d, threshold = fl (7 / 10)\<rparr>)"

text \<open>\<open>k in normalized_match and k in self.tenant_data\<close>.\<close>

definition present :: "pydict \<Rightarrow> pydict \<Rightarrow> string \<Rightarrow> bool" where
  "present td nm k = (has_key nm k \<and> has_key td k)"

text \<open>A comparator applied to the two values under a key, when both records have the
  key; the initial score \<open>0.0\<close> otherwise.\<close>

definition compare_key ::
  "(pyval \<Rightarrow> pyval \<Rightarrow> error + rat) \<Rightarrow> pydict \<Rightarrow> pydict \<Rightarrow> string \<Rightarrow> error + rat" where
  "compare_key cmp td nm k =
     (case (map_of nm k, map_of td k) of
        (Some m, Some t) \<Rightarrow> cmp t m
      | _ \<Rightarrow> Inr 0)"

definition parts_score :: "pydict \<Rightarrow> pydict \<Rightarrow> error + rat" where
  "parts_score td nm =
     (case (map_of td ''name_parts'', map_of nm ''name_parts'') of
        (Some tp, Some mp) \<Rightarrow>
          if truthy tp \<and> truthy mp
          then (case (tp, mp) of
                  (PStrSet A, PStrSet B) \<Rightarrow>
                    Inr (fdiv (of_nat (card (A \<inter> B))) (of_nat (max (card A) (card B))))
                | _ \<Rightarrow> Inl AttributeError)
          else Inr 0
      | _ \<Rightarrow> Inr 0)"

definition name_score_of :: "env \<Rightarrow> pydict \<Rightarrow> pydict \<Rightarrow> error + rat" where
  "name_score_of e td nm =
     (if present td nm ''full_name''
      then compare_key (calculate_name_similarity e) td nm ''full_name''
      else bind_err (compare_key (calculate_name_similarity e) td nm ''first_name'') (\<lambda>first_name_score.
           bind_err (compare_key (calculate_name_similarity e) td nm ''last_name'') (\<lambda>last_name_score.
           bind_err (parts_score td nm) (\<lambda>ps.
             Inr (max first_name_score (max last_name_score ps))))))"

definition total_weight :: "pydict \<Rightarrow> pydict \<Rightarrow> rat" where
  "total_weight td nm =
     (let t0 = fl (5 / 10);
          t1 = (if present td nm ''dob'' then fadd t0 (fl (2 / 10)) else t0);
          t2 = (if present td nm ''location'' then fadd t1 (fl (1 / 10)) else t1);
          t3 = (if present td nm ''nationality'' then fadd t2 (fl (1 / 10)) else t2)
      in (if present td nm ''gender'' then fadd t3 (fl (1 / 10)) else t3))"

record weights =
  name_weight :: rat
  dob_weight :: rat
  location_weight :: rat
  nationality_weight :: rat
  gender_weight :: rat

definition normalized_weights :: "pydict \<Rightarrow> pydict \<Rightarrow> weights" where
  "normalized_weights td nm =
     (let tw = total_weight td nm
      in if tw > 0
         then \<lparr>name_weight = fdiv (fl (5 / 10)) tw,
               dob_weight = (if present td nm ''dob'' then fdiv (fl (2 / 10)) tw else 0),
               location_weight = (if present td nm ''location'' then fdiv (fl (1 / 10)) tw else 0),
               nationality_weight =
                 (if present td nm ''nationality'' then fdiv (fl (1 / 10)) tw else 0),
               gender_weight = (if present td nm ''gender'' then fdiv (fl (1 / 10)) tw else 0)\<rparr>
         else \<lparr>name_weight = fl (5 / 10), dob_weight = fl (2 / 10), location_weight = fl (1 / 10),
               nationality_weight = fl (1 / 10), gender_weight = fl (1 / 10)\<rparr>)"

record scores =
  name_score :: rat
  dob_score :: rat
  location_score :: rat
  nationality_score :: rat
  gender_score :: rat

definition weighted_sum :: "scores \<Rightarrow> weights \<Rightarrow> rat" where
  "weighted_sum sc w =
     fadd (fadd (fadd (fadd (fmul (name_score sc) (name_weight w))
                            (fmul (dob_score sc) (dob_weight w)))
                      (fmul (location_score sc) (location_weight w)))
                (fmul (nationality_score sc) (nationality_weight w)))
          (fmul (gender_score sc) (gender_weight w))"

definition compute_scores :: "env \<Rightarrow> pydict \<Rightarrow> pydict \<Rightarrow> error + scores" where
  "compute_scores e td nm =
     bind_err (name_score_of e td nm) (\<lambda>ns.
     bind_err (compare_key compare_dates td nm ''dob'') (\<lambda>ds.
     bind_err (compare_key (compare_locations e) td nm ''location'') (\<lambda>ls.
     bind_err (compare_key (compare_nationalities e) td nm ''nationality'') (\<lambda>nats.
     bind_err (compare_key (compare_gender e) td nm ''gender'') (\<lambda>gs.
       Inr \<lparr>name_score = ns, dob_score = ds, location_score = ls,
            nationality_score = nats, gender_score = gs\<rparr>)))))"

subsection \<open>Formatting\<close>

function digits :: "int \<Rightarrow> ustr" where
  "digits n = (if n < 10 then [48 + nat n] else digits (n div 10) @ [48 + nat (n mod 10)])"
  by pat_completeness auto
termination
  by (relation "measure nat") auto

definition zero_pad :: "nat \<Rightarrow> ustr \<Rightarrow> ustr" where
  "zero_pad k s = replicate (k - length s) 48 @ s"

text \<open>\<open>f"{x:.2f}"\<close>: the exact value rounded to two decimals, ties to even.\<close>

definition fmt2f :: "rat \<Rightarrow> ustr" where
  "fmt2f x =
     (let n = round_half_even (\<bar>x\<bar> * 100);
          s = digits (n div 100) @ [46] @ zero_pad 2 (digits (n mod 100))
      in if x < 0 then 45 # s else s)"

text \<open>\<open>dt.strftime('%Y-%m-%d')\<close>, the year written with four digits.\<close>

definition strftime_ymd :: "datetime \<Rightarrow> ustr" where
  "strftime_ymd dt =
     zero_pad 4 (digits (year dt)) @ [45] @ zero_pad 2 (digits (month dt))
       @ [45] @ zero_pad 2 (digits (day dt))"

subsection \<open>Explanations\<close>

definition name_reasons :: "rat \<Rightarrow> ustr list \<times> ustr list" where
  "name_reasons ns =
     (if ns > fl (8 / 10) then ([u ''Name is a strong match ('' @ fmt2f ns @ u '')''], [])
      else if ns > fl (5 / 10) then ([u ''Name is a partial match ('' @ fmt2f ns @ u '')''], [])
      else ([], [u ''Name is not a good match ('' @ fmt2f ns @ u '')'']))"

definition dob_reasons :: "rat \<Rightarrow> bool \<Rightarrow> ustr list \<times> ustr list" where
  "dob_reasons ds both =
     (if ds = 1 then ([u ''Date of birth matches exactly''], [])
      else if ds > 0 then ([u ''Date of birth partially matches''], [])
      else if both then ([], [u ''Date of birth does not match''])
      else ([], []))"

definition location_reasons :: "rat \<Rightarrow> ustr list \<times> ustr list" where
  "location_reasons ls =
     (if ls > fl (8 / 10) then ([u ''Location is a strong match ('' @ fmt2f ls @ u '')''], [])
      else if ls > fl (5 / 10) then ([u ''Location is a partial match ('' @ fmt2f ls @ u '')''], [])
      else ([], []))"

definition nationality_reasons :: "rat \<Rightarrow> bool \<Rightarrow> ustr list \<times> ustr list" where
  "nationality_reasons s both =
     (if s = 1 then ([u ''Nationality matches exactly''], [])
      else if both then ([], [u ''Nationality does not match''])
      else ([], []))"

definition gender_reasons :: "rat \<Rightarrow> bool \<Rightarrow> ustr list \<times> ustr list" where
  "gender_reasons s both =
     (if s = 1 then ([u ''Gender matches''], [])
      else if both then ([], [u ''Gender does not match''])
      else ([], []))"

definition all_reasons :: "scores \<Rightarrow> pydict \<Rightarrow> pydict \<Rightarrow> ustr list \<times> ustr list" where
  "all_reasons sc td nm =
     (let rs = [name_reasons (name_score sc),
                dob_reasons (dob_score sc) (present td nm ''dob''),
                location_reasons (location_score sc),
                nationality_reasons (nationality_score sc) (present td nm ''nationality''),
                gender_reasons (gender_score sc) (present td nm ''gender'')]
      in (concat (map fst rs), concat (map snd rs)))"

subsection \<open>\<open>evaluate_match\<close>\<close>

record evaluation =
  relevance_score :: rat
  ev_category :: match_category
  match_reasons :: "ustr list"
  mismatch_reasons :: "ustr list"

text \<open>Everything \<open>evaluate_match\<close> computes from the reference identity and the
  normalized candidate.\<close>

definition evaluate_normalized :: "env \<Rightarrow> pydict \<Rightarrow> pydict \<Rightarrow> error + evaluation" where
  "evaluate_normalized e td nm =
     bind_err (compute_scores e td nm) (\<lambda>sc.
       (let r = weighted_sum sc (normalized_weights td nm);
            rs = all_reasons sc td nm
        in Inr \<lparr>relevance_score = r, ev_category = get_match_category r,
                match_reasons = fst rs, mismatch_reasons = snd rs\<rparr>))"

text \<open>The assignments into \<open>result\<close>, and the rendering of a \<open>datetime\<close> under
  \<open>'dob'\<close>.\<close>

definition render_dob :: "pydict \<Rightarrow> pydict" where
  "render_dob r =
     (case map_of r ''dob'' of
        Some (PDateTime dt) \<Rightarrow> AList.update ''dob'' (PStr (strftime_ymd dt)) r
      | _ \<Rightarrow> r)"

definition write_result :: "evaluation \<Rightarrow> pydict \<Rightarrow> pydict" where
  "write_result ev result =
     render_dob
       (AList.update ''mismatch_reasons'' (PStrList (mismatch_reasons ev))
       (AList.update ''match_reasons'' (PStrList (match_reasons ev))
       (AList.update ''match_label'' (PStr (u (cat_label (ev_category ev))))
       (AList.update ''match_category'' (PStr (u (category (ev_category ev))))
       (AList.update ''relevance_score'' (PFloat (relevance_score ev)) result)))))"

definition evaluate_match :: "env \<Rightarrow> evaluator \<Rightarrow> pydict \<Rightarrow> error + pydict" where
  "evaluate_match e self match_data =
     bind_err (normalize_tenant_data e match_data) (\<lambda>normalized_match.
     bind_err (evaluate_normalized e (tenant_data self) normalized_match) (\<lambda>ev.
       Inr (write_result ev match_data)))"

section \<open>Pipeline extraction\<close>

text \<open>The pipeline container is arbitrary nested data: \<open>None\<close>, integers, strings,
  lists and dictionaries.\<close>

datatype pipe =
    JNone
  | JInt int
  | JStr ustr
  | JList "pipe list"
  | JDict "(string \<times> pipe) list"

text \<open>\<open>matches.extend(x)\<close> appends the elements \<open>x\<close> iterates over: the items of a
  list, the keys of a dictionary, the characters of a string; \<open>None\<close> and integers are
  not iterable.\<close>

definition extend :: "pipe list \<Rightarrow> pipe \<Rightarrow> error + pipe list" where
  "extend matches x =
     (case x of
        JList xs \<Rightarrow> Inr (matches @ xs)
      | JDict kvs \<Rightarrow> Inr (matches @ map (\<lambda>kv. JStr (u (fst kv))) kvs)
      | JStr s \<Rightarrow> Inr (matches @ map (\<lambda>c. JStr [c]) s)
      | _ \<Rightarrow> Inl TypeError)"

definition blacklist_type :: pipe where
  "blacklist_type = JStr (u ''refinitiv-blacklist'')"

text \<open>One step of the loop: \<open>step.get\<close> exists on dictionaries only.\<close>

definition extract_step :: "pipe list \<Rightarrow> pipe \<Rightarrow> error + pipe list" where
  "extract_step matches step =
     (case step of
        JDict kvs \<Rightarrow>
          if map_of kvs ''type'' = Some blacklist_type
          then (case map_of kvs ''results'' of
                  Some r \<Rightarrow> extend matches r
                | None \<Rightarrow> Inr matches)
          else Inr matches
      | _ \<Rightarrow> Inl AttributeError)"

fun extract_steps :: "pipe list \<Rightarrow> pipe list \<Rightarrow> error + pipe list" where
  "extract_steps matches [] = Inr matches"
| "extract_steps matches (step # steps) =
     (case extract_step matches step of
        Inl err \<Rightarrow> Inl err
      | Inr matches' \<Rightarrow> extract_steps matches' steps)"

definition extract_matches_from_pipeline :: "(string \<times> pipe) list \<Rightarrow> error + pipe list" where
  "extract_matches_from_pipeline pipeline_data =
     (case map_of pipeline_data ''pipeline'' of
        None \<Rightarrow> Inr []
      | Some (JList steps) \<Rightarrow> extract_steps [] steps
      | Some (JDict kvs) \<Rightarrow>
          if map_of kvs ''type'' = Some blacklist_type
          then (case map_of kvs ''results'' of
                  Some r \<Rightarrow> extend [] r
                | None \<Rightarrow> Inr [])
          else Inr []
      | Some _ \<Rightarrow> Inr [])"

text \<open>The results lists of the blacklist steps, in encounter order.\<close>

fun blacklist_results :: "pipe list \<Rightarrow> pipe list" where
  "blacklist_results [] = []"
| "blacklist_results (JDict kvs # steps) =
     (if map_of kvs ''type'' = Some blacklist_type
      then (case map_of kvs ''results'' of
              Some (JList xs) \<Rightarrow> xs @ blacklist_results steps
            | _ \<Rightarrow> blacklist_results steps)
      else blacklist_results steps)"
| "blacklist_results (x # steps) = blacklist_results steps"

text \<open>A step the loop handles: a dictionary whose \<open>results\<close>, when it is a blacklist
  step that has them, is a list.\<close>

fun well_formed_step :: "pipe \<Rightarrow> bool" where
  "well_formed_step (JDict kvs) =
     (if map_of kvs ''type'' = Some blacklist_type
      then (case map_of kvs ''results'' of
              None \<Rightarrow> True
            | Some (JList xs) \<Rightarrow> True
            | Some x \<Rightarrow> False)
      else True)"
| "well_formed_step x = False"

section \<open>Objects and mutation\<close>

text \<open>
  Dictionaries are mutable objects. A heap is the list of the dictionary objects
  allocated so far, an address is an index into it. \<open>d.copy()\<close> allocates a new object
  with the same items; an assignment \<open>d[k] = v\<close> changes the object at the address of
  \<open>d\<close> only. The items themselves (strings, numbers, \<open>datetime\<close> values) are
  immutable, and the set and the lists the evaluator stores are created by it.
\<close>

type_synonym heap = "pydict list"

definition copy :: "heap \<Rightarrow> nat \<Rightarrow> heap \<times> nat" where
  "copy h a = (h @ [h ! a], length h)"

text \<open>\<open>_normalize_tenant_data(data)\<close>: \<open>normalized = data.copy()\<close>, every later
  assignment goes to \<open>normalized\<close>, which is returned.\<close>

definition normalize_tenant_data_h :: "env \<Rightarrow> heap \<Rightarrow> nat \<Rightarrow> heap \<times> (error + nat)" where
  "normalize_tenant_data_h e h data =
     (case copy h data of (h1, normalized) \<Rightarrow>
        (case normalize_tenant_data e (h1 ! normalized) of
           Inl err \<Rightarrow> (h1, Inl err)
         | Inr d \<Rightarrow> (h1[normalized := d], Inr normalized)))"

text \<open>\<open>evaluate_match(match_data)\<close>: \<open>result = match_data.copy()\<close>, the candidate is
  normalized into a second copy, and the evaluation is assigned into \<open>result\<close>.\<close>

definition evaluate_match_h :: "env \<Rightarrow> evaluator \<Rightarrow> heap \<Rightarrow> nat \<Rightarrow> heap \<times> (error + nat)" where
  "evaluate_match_h e self h match_data =
     (case copy h match_data of (h1, result) \<Rightarrow>
        (case normalize_tenant_data_h e h1 match_data of
           (h2, Inl err) \<Rightarrow> (h2, Inl err)
         | (h2, Inr normalized_match) \<Rightarrow>
             (case evaluate_normalized e (tenant_data self) (h2 ! normalized_match) of
                Inl err \<Rightarrow> (h2, Inl err)
              | Inr ev \<Rightarrow> (h2[result := write_result ev (h2 ! result)], Inr result))))"

section \<open>A concrete environment\<close>

text \<open>
  The fragment of Python's tables used to evaluate examples: the ASCII character classes
  and ASCII lower-casing, together with \<open>U+0130\<close> (a letter whose lower case is
  \<open>i\<close> followed by the combining mark \<open>U+0307\<close>, which is neither a word character
  nor whitespace). Both similarity functions return \<open>1.0\<close> on equal arguments (for
  \<open>SequenceMatcher\<close>, below 200 characters); the examples call them on equal arguments
  only, and \<open>0\<close> stands for the value elsewhere.
\<close>

definition ascii_word :: "nat \<Rightarrow> bool" where
  "ascii_word c = ((48 \<le> c \<and> c \<le> 57) \<or> (65 \<le> c \<and> c \<le> 90) \<or> c = 95 \<or> (97 \<le> c \<and> c \<le> 122))"

definition ascii_space :: "nat \<Rightarrow> bool" where
  "ascii_space c = ((9 \<le> c \<and> c \<le> 13) \<or> (28 \<le> c \<and> c \<le> 32))"

definition ascii_lower :: "nat \<Rightarrow> nat" where
  "ascii_lower c = (if 65 \<le> c \<and> c \<le> 90 then c + 32 else c)"

definition example_lower :: "nat \<Rightarrow> ustr" where
  "example_lower c = (if c = 304 then [105, 775] else [ascii_lower c])"

definition example_env :: env where
  "example_env =
     \<lparr>is_word = (\<lambda>c. ascii_word c \<or> c = 304),
      is_space = ascii_space,
      decimal = (\<lambda>c. None),
      lower = (\<lambda>s. concat (map example_lower s)),
      seq_ratio = (\<lambda>a b. if a = b then 1 else 0),
      jaro_winkler = (\<lambda>a b. if a = b then 1 else 0),
      now = \<lparr>year = 2024, month = 6, day = 15, hour = 12, minute = 0, second = 0,
             microsecond = 0\<rparr>\<rparr>"

text \<open>An environment whose tables agree with Python's on ASCII.\<close>

definition ascii :: "ustr \<Rightarrow> bool" where
  "ascii s = list_all (\<lambda>c. c < 128) s"

definition ascii_env :: "env \<Rightarrow> bool" where
  "ascii_env e =
     ((\<forall>c < 128. is_word e c = ascii_word c) \<and> (\<forall>c < 128. is_space e c = ascii_space c)
      \<and> (\<forall>s. ascii s \<longrightarrow> lower e s = map ascii_lower s))"

section \<open>Example data\<close>



definition two_step_pipeline :: "(string \<times> pipe) list" where
  "two_step_pipeline =
     [(''pipeline'', JList
        [JDict [(''type'', JStr (u ''refinitiv-blacklist'')),
                (''results'', JList [JDict [(''id'', JInt 1)], JDict [(''id'', JInt 2)]])],
         JDict [(''type'', JStr (u ''other-source'')),
                (''results'', JList [JDict [(''id'', JInt 9)]])],
         JDict [(''type'', JStr (u ''refinitiv-blacklist'')),
                (''results'', JList [JDict [(''id'', JInt 1)]])]])]"

section \<open>Literals\<close>

lemma fl_literals:
  "fl (5 / 10) = 1 / 2"
  "fl (8 / 10) = 3602879701896397 / 4503599627370496"
  "fl (6 / 10) = 5404319552844595 / 9007199254740992"
  "fl (4 / 10) = 3602879701896397 / 9007199254740992"
  "fl (2 / 10) = 3602879701896397 / 18014398509481984"
  "fl (1 / 10) = 3602879701896397 / 36028797018963968"
  "fl (7 / 10) = 3152519739159347 / 4503599627370496"
  "fl (1 / 2) = 1 / 2"
  "fl (4 / 5) = 3602879701896397 / 4503599627370496"
  "fl (3 / 5) = 5404319552844595 / 9007199254740992"
  "fl (2 / 5) = 3602879701896397 / 9007199254740992"
  "fl (1 / 5) = 3602879701896397 / 18014398509481984"
  by code_simp+

section \<open>The classifier\<close>

lemma sorted_categories:
  "sorted_reverse (\<lambda>x. min_score (snd x)) MATCH_CATEGORIES = MATCH_CATEGORIES"
  by (simp add: sorted_reverse_def MATCH_CATEGORIES_def fl_literals)

lemma get_match_category_unfold:
  "get_match_category s =
     (if s \<ge> fl (8 / 10)
      then \<lparr>category = ''HIGH_RELEVANCE'', cat_label = ''Highly Relevant Match'', score = s\<rparr>
      else if s \<ge> fl (6 / 10)
      then \<lparr>category = ''MEDIUM_RELEVANCE'', cat_label = ''Potentially Relevant Match'', score = s\<rparr>
      else if s \<ge> fl (4 / 10)
      then \<lparr>category = ''LOW_RELEVANCE'', cat_label = ''Low Relevance Match'', score = s\<rparr>
      else \<lparr>category = ''NOT_RELEVANT'', cat_label = ''Not Relevant'', score = s\<rparr>)"
  unfolding get_match_category_def sorted_categories
  by (simp add: MATCH_CATEGORIES_def)

lemma rank_values:
  "rank ''HIGH_RELEVANCE'' = fl (8 / 10)"
  "rank ''MEDIUM_RELEVANCE'' = fl (6 / 10)"
  "rank ''LOW_RELEVANCE'' = fl (4 / 10)"
  "rank ''NOT_RELEVANT'' = 0"
  by (simp_all add: rank_def MATCH_CATEGORIES_def)

text \<open>
  Claim C6. \<open>_get_match_category\<close> is total and monotonic. For every score in \<open>[0,1]\<close>
  the result names an entry of the category table, carries that entry's label and the
  score, the entry's threshold is met, and no entry whose threshold is met has a higher
  threshold. For any two scores \<open>s1 \<le> s2\<close> the category selected for \<open>s2\<close> has rank
  at least that selected for \<open>s1\<close>.
\<close>

theorem get_match_category_total_monotonic:
  "(\<forall>s. 0 \<le> s \<and> s \<le> 1 \<longrightarrow>
      (\<exists>info. map_of MATCH_CATEGORIES (category (get_match_category s)) = Some info
         \<and> cat_label (get_match_category s) = label info
         \<and> score (get_match_category s) = s
         \<and> min_score info \<le> s
         \<and> (\<forall>c i. map_of MATCH_CATEGORIES c = Some i \<and> min_score i \<le> s
               \<longrightarrow> min_score i \<le> min_score info)))
   \<and> (\<forall>s1 s2. s1 \<le> s2 \<longrightarrow>
         rank (category (get_match_category s1)) \<le> rank (category (get_match_category s2)))"
proof (intro conjI allI impI)
  fix s :: rat
  assume s: "0 \<le> s \<and> s \<le> 1"
  show "\<exists>info. map_of MATCH_CATEGORIES (category (get_match_category s)) = Some info
         \<and> cat_label (get_match_category s) = label info
         \<and> score (get_match_category s) = s
         \<and> min_score info \<le> s
         \<and> (\<forall>c i. map_of MATCH_CATEGORIES c = Some i \<and> min_score i \<le> s
               \<longrightarrow> min_score i \<le> min_score info)"
    using s
    by (auto simp add: get_match_category_unfold MATCH_CATEGORIES_def fl_literals
        split: if_splits)
next
  fix s1 s2 :: rat
  assume "s1 \<le> s2"
  then show "rank (category (get_match_category s1)) \<le> rank (category (get_match_category s2))"
    by (auto simp add: get_match_category_unfold rank_values fl_literals)
qed

theorem get_match_category_total_monotonic_witness:
  "((0::rat) \<le> 7 / 10 \<and> (7 / 10 :: rat) \<le> 1)
   \<and> (\<exists>info. map_of MATCH_CATEGORIES (category (get_match_category (7 / 10))) = Some info
         \<and> cat_label (get_match_category (7 / 10)) = label info
         \<and> min_score info \<le> 7 / 10)
   \<and> (1 / 2 :: rat) \<le> 9 / 10
   \<and> rank (category (get_match_category (1 / 2))) \<le> rank (category (get_match_category (9 / 10)))"
proof -
  have h1: "(0::rat) \<le> 7 / 10 \<and> (7 / 10 :: rat) \<le> 1" by simp
  have h2: "(1 / 2 :: rat) \<le> 9 / 10" by simp
  from get_match_category_total_monotonic h1
  have c1: "\<exists>info. map_of MATCH_CATEGORIES (category (get_match_category (7 / 10))) = Some info
         \<and> cat_label (get_match_category (7 / 10)) = label info
         \<and> min_score info \<le> 7 / 10"
    by blast
  from get_match_category_total_monotonic h2
  have c2: "rank (category (get_match_category (1 / 2)))
              \<le> rank (category (get_match_category (9 / 10)))"
    by blast
  from h1 h2 c1 c2 show ?thesis by blast
qed

section \<open>The date comparator\<close>




section \<open>Pipeline extraction, verified\<close>

lemma extract_steps_well_formed:
  "list_all well_formed_step steps \<Longrightarrow>
     extract_steps matches steps = Inr (matches @ blacklist_results steps)"
proof (induction steps arbitrary: matches)
  case Nil
  then show ?case by simp
next
  case (Cons step steps)
  from Cons.prems have wf: "well_formed_step step" and rest: "list_all well_formed_step steps"
    by simp_all
  from wf obtain kvs where step: "step = JDict kvs"
    by (cases step) simp_all
  show ?case
  proof (cases "map_of kvs ''type'' = Some blacklist_type")
    case False
    then show ?thesis
      using Cons.IH [OF rest] step by (simp add: extract_step_def)
  next
    case True
    show ?thesis
    proof (cases "map_of kvs ''results''")
      case None
      then show ?thesis
        using Cons.IH [OF rest] step True by (simp add: extract_step_def)
    next
      case (Some r)
      with wf step True obtain xs where r: "r = JList xs"
        by (cases r) simp_all
      show ?thesis
        using Cons.IH [OF rest, of "matches @ xs"] step True Some r
        by (simp add: extract_step_def extend_def)
    qed
  qed
qed

text \<open>
  Claim C4, as stated, at a container whose list of steps holds \<open>None\<close>:
  \<open>{'pipeline': [None]}\<close> is a malformed shape, and \<open>step.get\<close> raises
  \<open>AttributeError\<close> instead of yielding an empty list.
\<close>

theorem extract_malformed_step_counterexample:
  "extract_matches_from_pipeline [(''pipeline'', JList [JNone])] = Inl AttributeError"
  by (simp add: extract_matches_from_pipeline_def extract_step_def)

text \<open>
  Claim C4, amended. \<open>extract_matches_from_pipeline\<close> accepts a single step
  dictionary or a list of step dictionaries under \<open>'pipeline'\<close> and returns the
  concatenation of the \<open>results\<close> lists of the steps whose \<open>type\<close> is
  \<open>'refinitiv-blacklist'\<close>, in encounter order and with duplicates, provided every step
  is a dictionary and the \<open>results\<close> of every blacklist step, when present, is a
  list. It returns the empty list when the \<open>'pipeline'\<close> key is absent or its value
  is \<open>None\<close>, a number or a string.
\<close>

theorem extract_matches_shapes:
  "(map_of pd ''pipeline'' = None \<longrightarrow> extract_matches_from_pipeline pd = Inr [])
   \<and> (map_of pd ''pipeline'' = Some JNone \<longrightarrow> extract_matches_from_pipeline pd = Inr [])
   \<and> (map_of pd ''pipeline'' = Some (JInt i) \<longrightarrow> extract_matches_from_pipeline pd = Inr [])
   \<and> (map_of pd ''pipeline'' = Some (JStr s) \<longrightarrow> extract_matches_from_pipeline pd = Inr [])
   \<and> (map_of pd ''pipeline'' = Some (JList steps) \<and> list_all well_formed_step steps \<longrightarrow>
        extract_matches_from_pipeline pd = Inr (blacklist_results steps))
   \<and> (map_of pd ''pipeline'' = Some (JDict kvs) \<and> well_formed_step (JDict kvs) \<longrightarrow>
        extract_matches_from_pipeline pd = Inr (blacklist_results [JDict kvs]))"
proof -
  have single: "well_formed_step (JDict kvs) \<Longrightarrow>
      (if map_of kvs ''type'' = Some blacklist_type
       then (case map_of kvs ''results'' of Some r \<Rightarrow> extend [] r | None \<Rightarrow> Inr [])
       else Inr []) = Inr (blacklist_results [JDict kvs])"
    by (auto simp add: extend_def split: option.splits pipe.splits)
  show ?thesis
    using extract_steps_well_formed [of steps "[]"] single
    by (auto simp add: extract_matches_from_pipeline_def)
qed

theorem extract_matches_shapes_witness:
  "map_of two_step_pipeline ''pipeline'' \<noteq> None
   \<and> extract_matches_from_pipeline two_step_pipeline
       = Inr [JDict [(''id'', JInt 1)], JDict [(''id'', JInt 2)], JDict [(''id'', JInt 1)]]
   \<and> extract_matches_from_pipeline [] = Inr []"
proof -
  let ?steps = "[JDict [(''type'', JStr (u ''refinitiv-blacklist'')),
                (''results'', JList [JDict [(''id'', JInt 1)], JDict [(''id'', JInt 2)]])],
         JDict [(''type'', JStr (u ''other-source'')),
                (''results'', JList [JDict [(''id'', JInt 9)]])],
         JDict [(''type'', JStr (u ''refinitiv-blacklist'')),
                (''results'', JList [JDict [(''id'', JInt 1)]])]]"
  have m: "map_of two_step_pipeline ''pipeline'' = Some (JList ?steps)"
    by (simp add: two_step_pipeline_def)
  have wf: "list_all well_formed_step ?steps"
    by (simp add: blacklist_type_def u_def)
  have a: "extract_matches_from_pipeline two_step_pipeline = Inr (blacklist_results ?steps)"
    using extract_matches_shapes [of two_step_pipeline _ _ ?steps] m wf by blast
  have e: "map_of ([] :: (string \<times> pipe) list) ''pipeline'' = None" by simp
  have b: "extract_matches_from_pipeline [] = Inr []"
    using extract_matches_shapes [of "[]"] e by blast
  have v: "blacklist_results ?steps
       = [JDict [(''id'', JInt 1)], JDict [(''id'', JInt 2)], JDict [(''id'', JInt 1)]]"
    by (simp add: blacklist_type_def u_def)
  from m a b v show ?thesis by simp
qed

end
